theory Spec2Isabelle
  imports Main
begin

section \<open>The PDF text extractor \<open>extract_pdf.py\<close>\<close>

text \<open>
  The script opens one PDF with the pypdf library, prints every page's text between
  delimiters, joins the page texts with a blank line and, when the joined text is truthy,
  writes it to a file. The library is not part of the repository: it is a parameter of the
  model. Everything the script does to the outside (the library calls, the two output
  streams, the output file) is recorded in a world that is passed through.

  Python's \<open>str\<close> is modelled as \<open>string\<close>, the UTF-8 bytes of the text (the encoding the
  script opens its output file with); concatenation and \<open>join\<close> commute with that encoding.
  The calls of \<open>print\<close> and the write of the output file are taken to succeed.
\<close>

subsection \<open>Exceptions and outcomes\<close>

text \<open>
  A raised exception: whether it is an instance of \<open>Exception\<close> (the class the handler of
  \<open>extract_pdf_text\<close> names; \<open>KeyboardInterrupt\<close> and \<open>SystemExit\<close> are not), and \<open>str(e)\<close>.
\<close>

datatype py_exc = PyExc (is_Exception: bool) (exc_str: string)

text \<open>What a call does: it returns a value or an exception leaves it.\<close>

datatype 'a outcome = Returns 'a | Propagates py_exc

subsection \<open>The library\<close>

text \<open>
  A page object offers \<open>extract_text()\<close>, which raises or returns the page's text.
  \<open>PdfReader(path)\<close> together with the first access to \<open>.pages\<close> raises or gives the
  pages in order (both happen before anything is printed).
\<close>

datatype page = Page (extract_text: "py_exc + string")

type_synonym pdf_library = "string \<Rightarrow> py_exc + page list"

subsection \<open>The world\<close>

datatype event =
    OpenPdf string
  | ExtractText nat
  | Stdout string
  | Stderr string
  | WriteFile string string

record world =
  events :: "event list"
  files :: "string \<rightharpoonup> string"

record process_env =
  argv :: "string list"
  environ :: "(string \<times> string) list"

definition nl :: char where
  "nl = CHR 0x0A"

definition emit :: "event \<Rightarrow> world \<Rightarrow> world" where
  "emit ev w = w\<lparr>events := events w @ [ev]\<rparr>"

text \<open>\<open>print(s)\<close> writes \<open>s\<close> and a newline to standard output.\<close>

definition py_print :: "string \<Rightarrow> world \<Rightarrow> world" where
  "py_print s w = emit (Stdout (s @ [nl])) w"

text \<open>\<open>print(s, file=sys.stderr)\<close>.\<close>

definition py_print_stderr :: "string \<Rightarrow> world \<Rightarrow> world" where
  "py_print_stderr s w = emit (Stderr (s @ [nl])) w"

text \<open>\<open>with open(path, "w", encoding="utf-8") as f: f.write(text)\<close>.\<close>

definition write_file :: "string \<Rightarrow> string \<Rightarrow> world \<Rightarrow> world" where
  "write_file path text w = emit (WriteFile path text) (w\<lparr>files := (files w)(path \<mapsto> text)\<rparr>)"

subsection \<open>Formatting\<close>

definition digit_char :: "nat \<Rightarrow> char" where
  "digit_char d = char_of (48 + d)"

text \<open>\<open>str(n)\<close> for a non-negative integer: its decimal digits.\<close>

fun str_nat :: "nat \<Rightarrow> string" where
  "str_nat n = (if n < 10 then [digit_char n] else str_nat (n div 10) @ [digit_char (n mod 10)])"

declare str_nat.simps [simp del]

text \<open>\<open>sep.join(xs)\<close>.\<close>

fun join :: "string \<Rightarrow> string list \<Rightarrow> string" where
  "join sep [] = []"
| "join sep [x] = x"
| "join sep (x # y # ys) = x @ sep @ join sep (y # ys)"

definition rule80 :: string where
  "rule80 = replicate 80 CHR ''=''"

definition page_sep :: string where
  "page_sep = [nl, nl]"

text \<open>The f-strings \<open>f"PDF Pages: {n}\\n"\<close> and \<open>f"\\n--- PAGE {page_num} ---\\n"\<close>.\<close>

definition pages_line :: "nat \<Rightarrow> string" where
  "pages_line n = ''PDF Pages: '' @ str_nat n @ [nl]"

definition page_header :: "nat \<Rightarrow> string" where
  "page_header page_num = [nl] @ ''--- PAGE '' @ str_nat page_num @ '' ---'' @ [nl]"

subsection \<open>\<open>extract_pdf_text\<close>\<close>

text \<open>
  The loop \<open>for page_num, page in enumerate(reader.pages, 1)\<close>: the pages still to visit,
  the number of the next one, the list \<open>text_content\<close> so far. An exception of
  \<open>extract_text\<close> leaves the loop at once.
\<close>

fun extract_pages :: "page list \<Rightarrow> nat \<Rightarrow> string list \<Rightarrow> world \<Rightarrow> (py_exc + string list) \<times> world" where
  "extract_pages [] page_num text_content w = (Inr text_content, w)"
| "extract_pages (pg # rest) page_num text_content w =
     (let w1 = py_print (page_header page_num) w;
          w2 = emit (ExtractText page_num) w1
      in case extract_text pg of
           Inl e \<Rightarrow> (Inl e, w2)
         | Inr text \<Rightarrow>
             (let w3 = py_print text w2;
                  w4 = py_print ([nl] @ rule80) w3
              in extract_pages rest (Suc page_num) (text_content @ [text]) w4))"

text \<open>The body of the \<open>try\<close> block: \<open>Inl\<close> is an exception raised inside it.\<close>

definition try_body :: "pdf_library \<Rightarrow> string \<Rightarrow> world \<Rightarrow> (py_exc + string) \<times> world" where
  "try_body PdfReader pdf_path w =
     (let w0 = emit (OpenPdf pdf_path) w
      in case PdfReader pdf_path of
           Inl e \<Rightarrow> (Inl e, w0)
         | Inr pages \<Rightarrow>
             (let w1 = py_print (pages_line (length pages)) w0;
                  w2 = py_print rule80 w1
              in case extract_pages pages 1 [] w2 of
                   (Inl e, w3) \<Rightarrow> (Inl e, w3)
                 | (Inr text_content, w3) \<Rightarrow> (Inr (join page_sep text_content), w3)))"

text \<open>
  The handler \<open>except Exception as e\<close> takes the instances of \<open>Exception\<close>, prints the
  diagnostic and returns \<open>None\<close>; any other exception leaves the function.
\<close>

definition extract_pdf_text :: "pdf_library \<Rightarrow> string \<Rightarrow> world \<Rightarrow> string option outcome \<times> world" where
  "extract_pdf_text PdfReader pdf_path w =
     (case try_body PdfReader pdf_path w of
        (Inr text, w1) \<Rightarrow> (Returns (Some text), w1)
      | (Inl e, w1) \<Rightarrow>
          if is_Exception e
          then (Returns None, py_print_stderr (''Error extracting PDF: '' @ exc_str e) w1)
          else (Propagates e, w1))"

subsection \<open>The main block\<close>

text \<open>Python's truth value of \<open>text\<close>: \<open>None\<close> and the empty string are false.\<close>

definition truthy :: "string option \<Rightarrow> bool" where
  "truthy text = (case text of None \<Rightarrow> False | Some s \<Rightarrow> s \<noteq> [])"

abbreviation output_path :: string where
  "output_path \<equiv> ''VISANET_user_journey_extracted.txt''"

abbreviation input_path :: string where
  "input_path \<equiv> ''VISANET- user journey.pdf''"

text \<open>The check mark U+2713 of the success message, in UTF-8.\<close>

definition check_mark :: string where
  "check_mark = [CHR 0xE2, CHR 0x9C, CHR 0x93]"

definition success_message :: string where
  "success_message =
     [nl, nl] @ check_mark @ '' Text extracted and saved to VISANET_user_journey_extracted.txt''"

text \<open>
  The block under \<open>if __name__ == "__main__"\<close>. The process's arguments and environment
  are there, and the script reads neither.
\<close>

definition main :: "pdf_library \<Rightarrow> process_env \<Rightarrow> world \<Rightarrow> unit outcome \<times> world" where
  "main PdfReader penv w =
     (let pdf_path = ''VISANET- user journey.pdf''
      in case extract_pdf_text PdfReader pdf_path w of
           (Propagates e, w1) \<Rightarrow> (Propagates e, w1)
         | (Returns text, w1) \<Rightarrow>
             if truthy text
             then (let w2 = write_file ''VISANET_user_journey_extracted.txt'' (the text) w1;
                       w3 = py_print success_message w2
                   in (Returns (), w3))
             else (Returns (), w1))"

subsection \<open>Reading the world\<close>

text \<open>
  The error stream, the output stream, the file writes and the opened PDFs among some
  events, in order.
\<close>

fun stderr_of :: "event list \<Rightarrow> string list" where
  "stderr_of [] = []"
| "stderr_of (Stderr s # evs) = s # stderr_of evs"
| "stderr_of (_ # evs) = stderr_of evs"

fun stdout_of :: "event list \<Rightarrow> string list" where
  "stdout_of [] = []"
| "stdout_of (Stdout s # evs) = s # stdout_of evs"
| "stdout_of (_ # evs) = stdout_of evs"

fun writes_of :: "event list \<Rightarrow> (string \<times> string) list" where
  "writes_of [] = []"
| "writes_of (WriteFile path text # evs) = (path, text) # writes_of evs"
| "writes_of (_ # evs) = writes_of evs"

fun opens_of :: "event list \<Rightarrow> string list" where
  "opens_of [] = []"
| "opens_of (OpenPdf path # evs) = path # opens_of evs"
| "opens_of (_ # evs) = opens_of evs"

subsection \<open>What the library does on an input\<close>

text \<open>The exception of the first page whose \<open>extract_text\<close> raises, if any.\<close>

fun first_raise :: "page list \<Rightarrow> py_exc option" where
  "first_raise [] = None"
| "first_raise (pg # rest) = (case extract_text pg of Inl e \<Rightarrow> Some e | Inr _ \<Rightarrow> first_raise rest)"

text \<open>The exception that reading the file or extracting a page raises, if any.\<close>

definition extraction_exception :: "pdf_library \<Rightarrow> string \<Rightarrow> py_exc option" where
  "extraction_exception PdfReader pdf_path =
     (case PdfReader pdf_path of Inl e \<Rightarrow> Some e | Inr pages \<Rightarrow> first_raise pages)"

subsection \<open>The steps of the loop\<close>

text \<open>
  What the loop does when no page raises, for the page texts in order and the number of the
  first page: the page header, the call of \<open>extract_text\<close>, the text, the closing rule.
\<close>

fun page_events :: "nat \<Rightarrow> string list \<Rightarrow> event list" where
  "page_events page_num [] = []"
| "page_events page_num (text # texts) =
     [Stdout (page_header page_num @ [nl]),
      ExtractText page_num,
      Stdout (text @ [nl]),
      Stdout ([nl] @ rule80 @ [nl])] @ page_events (Suc page_num) texts"

subsection \<open>Concrete runs\<close>

text \<open>
  An empty world and a process environment; some exceptions as the interpreter and the
  library raise them (\<open>str(KeyboardInterrupt())\<close> is empty); and some libraries: a missing
  file, PDFs of one and two pages, a scanned page without text, a PDF whose second page is
  damaged, and a run interrupted from the keyboard during the second page.
\<close>

definition w0 :: world where
  "w0 = \<lparr>events = [], files = Map.empty\<rparr>"

definition penv0 :: process_env where
  "penv0 = \<lparr>argv = [''extract_pdf.py''], environ = []\<rparr>"

definition file_not_found :: py_exc where
  "file_not_found =
     PyExc True (''[Errno 2] No such file or directory: '' @ [CHR 0x27] @ input_path @ [CHR 0x27])"

definition stream_error :: py_exc where
  "stream_error = PyExc True ''Stream has ended unexpectedly''"

definition keyboard_interrupt :: py_exc where
  "keyboard_interrupt = PyExc False []"

definition missing_file :: pdf_library where
  "missing_file path = Inl file_not_found"

definition two_page_pdf :: pdf_library where
  "two_page_pdf path = Inr [Page (Inr ''Hello''), Page (Inr ''World'')]"

definition one_page_pdf :: pdf_library where
  "one_page_pdf path = Inr [Page (Inr ''Hello'')]"

definition scanned_pdf :: pdf_library where
  "scanned_pdf path = Inr [Page (Inr [])]"

definition corrupt_pdf :: pdf_library where
  "corrupt_pdf path = Inr [Page (Inr ''Hello''), Page (Inl stream_error), Page (Inr ''World'')]"

definition interrupted_pdf :: pdf_library where
  "interrupted_pdf path = Inr [Page (Inr ''Hello''), Page (Inl keyboard_interrupt)]"

section \<open>Auxiliary facts\<close>

subsection \<open>Streams\<close>

lemma stderr_of_append: "stderr_of (xs @ ys) = stderr_of xs @ stderr_of ys"
  by (induction xs rule: stderr_of.induct) simp_all

lemma writes_of_append: "writes_of (xs @ ys) = writes_of xs @ writes_of ys"
  by (induction xs rule: writes_of.induct) simp_all

lemma stdout_of_append: "stdout_of (xs @ ys) = stdout_of xs @ stdout_of ys"
  by (induction xs rule: stdout_of.induct) simp_all

subsection \<open>The loop\<close>

lemma extract_pages_ok:
  "map extract_text pages = map Inr texts \<Longrightarrow>
   extract_pages pages n acc w =
     (Inr (acc @ texts), w\<lparr>events := events w @ page_events n texts\<rparr>)"
proof (induction pages arbitrary: n acc w texts)
  case Nil
  then show ?case by simp
next
  case (Cons pg rest)
  then obtain t ts where ts: "texts = t # ts" "extract_text pg = Inr t" "map extract_text rest = map Inr ts"
    by (cases texts) auto
  show ?case
    using Cons.IH [OF ts(3)] ts(1,2)
    by (simp add: py_print_def emit_def)
qed

lemma first_raise_None:
  "first_raise pages = None \<Longrightarrow> \<exists>texts. map extract_text pages = map Inr texts"
proof (induction pages)
  case Nil
  then show ?case by simp
next
  case (Cons pg rest)
  then obtain t where t: "extract_text pg = Inr t" and r: "first_raise rest = None"
    by (auto split: sum.splits)
  from Cons.IH [OF r] obtain ts where "map extract_text rest = map Inr ts" by blast
  with t have "map extract_text (pg # rest) = map Inr (t # ts)" by simp
  then show ?case by blast
qed

lemma first_raise_ok: "map extract_text pages = map Inr texts \<Longrightarrow> first_raise pages = None"
  by (induction pages arbitrary: texts) auto

lemma extract_pages_raise:
  "first_raise pages = Some e \<Longrightarrow>
   \<exists>evs. extract_pages pages n acc w = (Inl e, w\<lparr>events := events w @ evs\<rparr>)
      \<and> stderr_of evs = [] \<and> writes_of evs = []"
proof (induction pages arbitrary: n acc w)
  case Nil
  then show ?case by simp
next
  case (Cons pg rest)
  show ?case
  proof (cases "extract_text pg")
    case (Inl e')
    with Cons.prems have "e' = e" by simp
    with Inl show ?thesis
      by (intro exI [of _ "[Stdout (page_header n @ [nl]), ExtractText n]"])
         (simp add: py_print_def emit_def)
  next
    case (Inr t)
    with Cons.prems have r: "first_raise rest = Some e" by simp
    let ?w4 = "py_print ([nl] @ rule80) (py_print t (emit (ExtractText n) (py_print (page_header n) w)))"
    from Cons.IH [OF r, of "Suc n" "acc @ [t]" ?w4]
    obtain evs where evs: "extract_pages rest (Suc n) (acc @ [t]) ?w4 = (Inl e, ?w4\<lparr>events := events ?w4 @ evs\<rparr>)"
      "stderr_of evs = []" "writes_of evs = []" by blast
    show ?thesis
      using Inr evs
      by (intro exI [of _ "[Stdout (page_header n @ [nl]), ExtractText n, Stdout (t @ [nl]),
             Stdout ([nl] @ rule80 @ [nl])] @ evs"])
         (simp add: py_print_def emit_def Let_def stderr_of_append writes_of_append)
  qed
qed

lemma extract_pages_append:
  "map extract_text good = map Inr texts \<Longrightarrow>
   extract_pages (good @ todo) n acc w =
     extract_pages todo (n + length good) (acc @ texts) (w\<lparr>events := events w @ page_events n texts\<rparr>)"
proof (induction good arbitrary: n acc w texts)
  case Nil
  then show ?case by simp
next
  case (Cons pg rest)
  then obtain t ts where ts: "texts = t # ts" "extract_text pg = Inr t" "map extract_text rest = map Inr ts"
    by (cases texts) auto
  show ?case
    using Cons.IH [OF ts(3)] ts(1,2)
    by (simp add: py_print_def emit_def)
qed

lemma extract_pages_raise_at:
  assumes "map extract_text good = map Inr texts" and "extract_text bad = Inl e"
  shows "extract_pages (good @ bad # rest) n acc w =
     (Inl e, w\<lparr>events := events w @ page_events n texts @
        [Stdout (page_header (n + length good) @ [nl]), ExtractText (n + length good)]\<rparr>)"
  using assms(2) by (simp add: extract_pages_append [OF assms(1)] py_print_def emit_def)

subsection \<open>Joining\<close>

lemma join_Cons: "join sep (x # xs) = x @ concat (map (\<lambda>t. sep @ t) xs)"
  by (induction xs arbitrary: x) simp_all

lemma join_decompose:
  "i < length xs \<Longrightarrow>
   join sep xs = concat (map (\<lambda>t. t @ sep) (take i xs)) @ xs ! i @ concat (map (\<lambda>t. sep @ t) (drop (Suc i) xs))"
proof (induction xs arbitrary: i)
  case Nil
  then show ?case by simp
next
  case (Cons x xs)
  show ?case
  proof (cases i)
    case 0
    then show ?thesis by (simp add: join_Cons)
  next
    case (Suc j)
    with Cons.prems have j: "j < length xs" by simp
    then obtain y ys where xs: "xs = y # ys" by (cases xs) auto
    have "join sep (x # xs) = x @ sep @ join sep xs" by (simp add: xs)
    with Cons.IH [OF j] Suc show ?thesis by simp
  qed
qed

lemma join_empty_iff: "sep \<noteq> [] \<Longrightarrow> join sep xs = [] \<longleftrightarrow> xs = [] \<or> xs = ['''']"
  by (induction sep xs rule: join.induct) auto

subsection \<open>The try block and the handler\<close>

lemma rule80_unfold: "rule80 = CHR ''='' # replicate 79 CHR ''=''"
  by (simp add: rule80_def numeral_eq_Suc)

lemma try_body_ok:
  assumes "PdfReader path = Inr pages" and "map extract_text pages = map Inr texts"
  shows "try_body PdfReader path w =
     (Inr (join page_sep texts),
      w\<lparr>events := events w @
         [OpenPdf path, Stdout (pages_line (length pages) @ [nl]), Stdout (rule80 @ [nl])] @
         page_events 1 texts\<rparr>)"
  using assms(1) by (simp add: try_body_def extract_pages_ok [OF assms(2)] py_print_def emit_def)

lemma try_body_raise:
  assumes "extraction_exception PdfReader path = Some e"
  shows "\<exists>evs. try_body PdfReader path w = (Inl e, w\<lparr>events := events w @ OpenPdf path # evs\<rparr>)
      \<and> stderr_of evs = [] \<and> writes_of evs = []"
proof (cases "PdfReader path")
  case (Inl e')
  with assms have "e' = e" by (simp add: extraction_exception_def)
  with Inl show ?thesis
    by (intro exI [of _ "[]"]) (simp add: try_body_def emit_def)
next
  case (Inr pages)
  with assms have r: "first_raise pages = Some e" by (simp add: extraction_exception_def)
  let ?w2 = "py_print rule80 (py_print (pages_line (length pages)) (emit (OpenPdf path) w))"
  from extract_pages_raise [OF r, of 1 "[]" ?w2]
  obtain evs where evs: "extract_pages pages 1 [] ?w2 = (Inl e, ?w2\<lparr>events := events ?w2 @ evs\<rparr>)"
    "stderr_of evs = []" "writes_of evs = []" by blast
  show ?thesis
    using Inr evs
    by (intro exI [of _ "[Stdout (pages_line (length pages) @ [nl]), Stdout (rule80 @ [nl])] @ evs"])
       (simp add: try_body_def py_print_def emit_def stderr_of_append writes_of_append)
qed

lemma extract_pdf_text_ok:
  assumes "PdfReader path = Inr pages" and "map extract_text pages = map Inr texts"
  shows "extract_pdf_text PdfReader path w =
     (Returns (Some (join page_sep texts)),
      w\<lparr>events := events w @
         [OpenPdf path, Stdout (pages_line (length pages) @ [nl]), Stdout (rule80 @ [nl])] @
         page_events 1 texts\<rparr>)"
  by (simp add: extract_pdf_text_def try_body_ok [of PdfReader path pages texts, OF assms])

lemma extract_pdf_text_caught:
  assumes "extraction_exception PdfReader path = Some e" and "is_Exception e"
  shows "\<exists>evs. extract_pdf_text PdfReader path w =
       (Returns None,
        w\<lparr>events := events w @ OpenPdf path # evs @ [Stderr (''Error extracting PDF: '' @ exc_str e @ [nl])]\<rparr>)
      \<and> stderr_of evs = [] \<and> writes_of evs = []"
proof -
  from try_body_raise [OF assms(1), of w]
  obtain evs where evs: "try_body PdfReader path w = (Inl e, w\<lparr>events := events w @ OpenPdf path # evs\<rparr>)"
    "stderr_of evs = []" "writes_of evs = []" by blast
  show ?thesis
    using evs assms(2)
    by (intro exI [of _ evs]) (simp add: extract_pdf_text_def py_print_stderr_def emit_def)
qed

lemma extract_pdf_text_escapes:
  assumes "extraction_exception PdfReader path = Some e" and "\<not> is_Exception e"
  shows "fst (extract_pdf_text PdfReader path w) = Propagates e"
proof -
  from try_body_raise [OF assms(1), of w]
  obtain evs where "try_body PdfReader path w = (Inl e, w\<lparr>events := events w @ OpenPdf path # evs\<rparr>)"
    by blast
  with assms(2) show ?thesis by (simp add: extract_pdf_text_def)
qed

lemma extraction_exception_None:
  "extraction_exception PdfReader path = None \<Longrightarrow>
   \<exists>pages texts. PdfReader path = Inr pages \<and> map extract_text pages = map Inr texts"
  by (auto simp: extraction_exception_def split: sum.splits dest: first_raise_None)

lemma main_caught:
  assumes "extraction_exception PdfReader input_path = Some e" and "is_Exception e"
  shows "main PdfReader penv w = (Returns (), snd (extract_pdf_text PdfReader input_path w))"
proof -
  from extract_pdf_text_caught [OF assms, of w]
  obtain w' where "extract_pdf_text PdfReader input_path w = (Returns None, w')" by blast
  then show ?thesis by (simp add: main_def truthy_def)
qed

subsection \<open>Opened files\<close>

lemma opens_of_append: "opens_of (xs @ ys) = opens_of xs @ opens_of ys"
  by (induction xs rule: opens_of.induct) simp_all

lemma page_events_streams:
  "stderr_of (page_events n texts) = []"
  "writes_of (page_events n texts) = []"
  "opens_of (page_events n texts) = []"
  by (induction texts arbitrary: n) simp_all

lemma extract_pages_opens:
  "opens_of (events (snd (extract_pages pages n acc w))) = opens_of (events w)"
  by (induction pages arbitrary: n acc w)
     (simp_all add: py_print_def emit_def opens_of_append Let_def split: sum.splits)

lemma try_body_opens:
  "opens_of (events (snd (try_body PdfReader path w))) = opens_of (events w) @ [path]"
proof (cases "PdfReader path")
  case (Inl e)
  then show ?thesis by (simp add: try_body_def emit_def opens_of_append)
next
  case (Inr pages)
  let ?w2 = "py_print rule80 (py_print (pages_line (length pages)) (emit (OpenPdf path) w))"
  have "opens_of (events ?w2) = opens_of (events w) @ [path]"
    by (simp add: py_print_def emit_def opens_of_append)
  with extract_pages_opens [of pages 1 "[]" ?w2] Inr show ?thesis
    by (auto simp: try_body_def Let_def split: prod.splits sum.splits)
qed

lemma extract_pdf_text_opens:
  "opens_of (events (snd (extract_pdf_text PdfReader path w))) = opens_of (events w) @ [path]"
  using try_body_opens [of PdfReader path w]
  by (auto simp: extract_pdf_text_def py_print_stderr_def emit_def opens_of_append
      split: prod.splits sum.splits)

lemma main_opens:
  "opens_of (events (snd (main PdfReader penv w))) = opens_of (events w) @ [input_path]"
  using extract_pdf_text_opens [of PdfReader input_path w]
  by (auto simp: main_def write_file_def py_print_def emit_def opens_of_append
      split: prod.splits outcome.splits)

subsection \<open>The success message\<close>

lemma page_sep_nonempty: "page_sep \<noteq> []"
  by (simp add: page_sep_def)

lemma no_success_in_progress:
  assumes "texts = [] \<or> texts = ['''']"
  shows "Stdout (success_message @ [nl]) \<notin>
     set ([OpenPdf path, Stdout (pages_line k @ [nl]), Stdout (rule80 @ [nl])] @ page_events 1 texts)"
  using assms
  by (auto simp: success_message_def pages_line_def rule80_unfold page_header_def nl_def)

section \<open>The properties\<close>

subsection \<open>The output file\<close>

text \<open>
  C1 (as amended). When extraction raises no exception and the joined text is not empty,
  the main block returns normally and the output file \<open>VISANET_user_journey_extracted.txt\<close>
  holds the page texts in order, joined with the separator of two newlines. The claim as
  written also promises the file when the joined text is empty; the guard \<open>if text\<close> of
  the main block skips the write there.
\<close>

theorem output_file_content:
  assumes "PdfReader input_path = Inr pages"
    and "map extract_text pages = map Inr texts"
    and "join page_sep texts \<noteq> []"
  shows "fst (main PdfReader penv w) = Returns () \<and>
         files (snd (main PdfReader penv w)) output_path = Some (join page_sep texts)"
  using assms(3)
  by (simp add: main_def extract_pdf_text_ok [of PdfReader _ pages texts, OF assms(1,2)] truthy_def write_file_def
      py_print_def emit_def)

text \<open>A PDF of two pages: the file holds both texts with the blank line between them.\<close>

theorem output_file_content_witness:
  "two_page_pdf input_path = Inr [Page (Inr ''Hello''), Page (Inr ''World'')] \<and>
   map extract_text [Page (Inr ''Hello''), Page (Inr ''World'')] = map Inr [''Hello'', ''World''] \<and>
   join page_sep [''Hello'', ''World''] \<noteq> [] \<and>
   fst (main two_page_pdf penv0 w0) = Returns () \<and>
   files (snd (main two_page_pdf penv0 w0)) output_path = Some (''Hello'' @ [nl, nl] @ ''World'')"
proof -
  have h1: "two_page_pdf input_path = Inr [Page (Inr ''Hello''), Page (Inr ''World'')]"
    by (simp add: two_page_pdf_def)
  have h2: "map extract_text [Page (Inr ''Hello''), Page (Inr ''World'')] = map Inr [''Hello'', ''World'']"
    by simp
  have h3: "join page_sep [''Hello'', ''World''] \<noteq> []"
    by (simp add: page_sep_def)
  from output_file_content [where PdfReader = two_page_pdf and penv = penv0 and w = w0, OF h1 h2 h3] h1 h2 h3
  show ?thesis by (simp add: page_sep_def)
qed

text \<open>
  C1 as written fails on a scanned page: extraction raises nothing and returns the empty
  string, the program ends normally, and no output file exists.
\<close>

theorem output_file_counterexample:
  "scanned_pdf input_path = Inr [Page (Inr [])] \<and>
   extraction_exception scanned_pdf input_path = None \<and>
   fst (extract_pdf_text scanned_pdf input_path w0) = Returns (Some []) \<and>
   fst (main scanned_pdf penv0 w0) = Returns () \<and>
   files (snd (main scanned_pdf penv0 w0)) output_path = None"
  by (simp add: scanned_pdf_def extraction_exception_def main_def extract_pdf_text_def
      try_body_def py_print_def emit_def truthy_def w0_def)

subsection \<open>Failures\<close>

text \<open>
  C2. When reading the file or extracting a page fails with an exception \<open>e\<close> of class
  \<open>Exception\<close> (a missing file, a corrupt PDF, a library error), \<open>extract_pdf_text\<close>
  catches it and returns \<open>None\<close>, the line \<open>Error extracting PDF: e\<close> is added to the
  error stream, and the program ends normally without writing any file: the files are
  those of the start.
\<close>

theorem failure_no_output:
  assumes "extraction_exception PdfReader input_path = Some e" and "is_Exception e"
  shows "fst (extract_pdf_text PdfReader input_path w) = Returns None \<and>
         fst (main PdfReader penv w) = Returns () \<and>
         files (snd (main PdfReader penv w)) = files w \<and>
         writes_of (events (snd (main PdfReader penv w))) = writes_of (events w) \<and>
         stderr_of (events (snd (main PdfReader penv w))) =
           stderr_of (events w) @ [''Error extracting PDF: '' @ exc_str e @ [nl]]"
proof -
  from extract_pdf_text_caught [OF assms, of w]
  obtain evs where evs: "extract_pdf_text PdfReader input_path w =
       (Returns None,
        w\<lparr>events := events w @ OpenPdf input_path # evs @ [Stderr (''Error extracting PDF: '' @ exc_str e @ [nl])]\<rparr>)"
    "stderr_of evs = []" "writes_of evs = []" by blast
  show ?thesis
    by (simp add: main_caught [OF assms] evs stderr_of_append writes_of_append)
qed

text \<open>A PDF whose second page is damaged.\<close>

theorem failure_no_output_witness:
  "extraction_exception corrupt_pdf input_path = Some stream_error \<and> is_Exception stream_error \<and>
   fst (extract_pdf_text corrupt_pdf input_path w0) = Returns None \<and>
   fst (main corrupt_pdf penv0 w0) = Returns () \<and>
   files (snd (main corrupt_pdf penv0 w0)) output_path = None \<and>
   writes_of (events (snd (main corrupt_pdf penv0 w0))) = [] \<and>
   stderr_of (events (snd (main corrupt_pdf penv0 w0))) =
     [''Error extracting PDF: Stream has ended unexpectedly'' @ [nl]]"
proof -
  have h1: "extraction_exception corrupt_pdf input_path = Some stream_error"
    by (simp add: extraction_exception_def corrupt_pdf_def)
  have h2: "is_Exception stream_error"
    by (simp add: stream_error_def)
  from failure_no_output [where PdfReader = corrupt_pdf and penv = penv0 and w = w0, OF h1 h2] h1 h2
  show ?thesis by (simp add: w0_def stream_error_def)
qed

text \<open>
  C3 (as amended). When extraction fails with an exception of class \<open>Exception\<close>, the
  diagnostic \<open>Error extracting PDF: e\<close> on the error stream is the last thing the program
  emits: a failure of \<open>PdfReader\<close> gives that line alone, a failure at a page gives the
  progress output printed up to that page's header and then that line. The main block
  adds nothing; no message says that no output file was produced.
\<close>

theorem failure_messages:
  assumes "is_Exception e"
  shows "(PdfReader input_path = Inl e \<longrightarrow>
            events (snd (main PdfReader penv w)) =
              events w @ [OpenPdf input_path, Stderr (''Error extracting PDF: '' @ exc_str e @ [nl])]) \<and>
         (PdfReader input_path = Inr (good @ bad # rest) \<and>
          map extract_text good = map Inr texts \<and> extract_text bad = Inl e \<longrightarrow>
            events (snd (main PdfReader penv w)) =
              events w @
              [OpenPdf input_path, Stdout (pages_line (length (good @ bad # rest)) @ [nl]),
               Stdout (rule80 @ [nl])] @
              page_events 1 texts @
              [Stdout (page_header (Suc (length good)) @ [nl]), ExtractText (Suc (length good)),
               Stderr (''Error extracting PDF: '' @ exc_str e @ [nl])])"
proof (intro conjI impI)
  assume "PdfReader input_path = Inl e"
  with assms show "events (snd (main PdfReader penv w)) =
      events w @ [OpenPdf input_path, Stderr (''Error extracting PDF: '' @ exc_str e @ [nl])]"
    by (simp add: main_def extract_pdf_text_def try_body_def truthy_def py_print_stderr_def emit_def)
next
  assume a: "PdfReader input_path = Inr (good @ bad # rest) \<and>
          map extract_text good = map Inr texts \<and> extract_text bad = Inl e"
  then have g: "map extract_text good = map Inr texts" and b: "extract_text bad = Inl e" by simp_all
  from a assms show "events (snd (main PdfReader penv w)) =
              events w @
              [OpenPdf input_path, Stdout (pages_line (length (good @ bad # rest)) @ [nl]),
               Stdout (rule80 @ [nl])] @
              page_events 1 texts @
              [Stdout (page_header (Suc (length good)) @ [nl]), ExtractText (Suc (length good)),
               Stderr (''Error extracting PDF: '' @ exc_str e @ [nl])]"
    by (simp add: main_def extract_pdf_text_def try_body_def truthy_def py_print_stderr_def
        py_print_def emit_def extract_pages_raise_at [OF g b])
qed

text \<open>Both cases: a missing file, and a PDF whose second page is damaged.\<close>

theorem failure_messages_witness:
  "is_Exception file_not_found \<and> missing_file input_path = Inl file_not_found \<and>
   events (snd (main missing_file penv0 w0)) =
     [OpenPdf input_path, Stderr (''Error extracting PDF: '' @ exc_str file_not_found @ [nl])] \<and>
   is_Exception stream_error \<and>
   corrupt_pdf input_path = Inr ([Page (Inr ''Hello'')] @ Page (Inl stream_error) # [Page (Inr ''World'')]) \<and>
   map extract_text [Page (Inr ''Hello'')] = map Inr [''Hello''] \<and>
   extract_text (Page (Inl stream_error)) = Inl stream_error \<and>
   events (snd (main corrupt_pdf penv0 w0)) =
     [OpenPdf input_path, Stdout (pages_line 3 @ [nl]), Stdout (rule80 @ [nl]),
      Stdout (page_header 1 @ [nl]), ExtractText 1, Stdout (''Hello'' @ [nl]),
      Stdout ([nl] @ rule80 @ [nl]),
      Stdout (page_header 2 @ [nl]), ExtractText 2,
      Stderr (''Error extracting PDF: Stream has ended unexpectedly'' @ [nl])]"
proof -
  have a1: "is_Exception file_not_found" by (simp add: file_not_found_def)
  have a2: "missing_file input_path = Inl file_not_found" by (simp add: missing_file_def)
  have b1: "is_Exception stream_error" by (simp add: stream_error_def)
  have b2: "corrupt_pdf input_path =
      Inr ([Page (Inr ''Hello'')] @ Page (Inl stream_error) # [Page (Inr ''World'')])"
    by (simp add: corrupt_pdf_def)
  have b3: "map extract_text [Page (Inr ''Hello'')] = map Inr [''Hello'']" by simp
  have b4: "extract_text (Page (Inl stream_error)) = Inl stream_error" by simp
  from failure_messages [where e = file_not_found and PdfReader = missing_file
      and penv = penv0 and w = w0, OF a1] a2
  have A: "events (snd (main missing_file penv0 w0)) =
     events w0 @ [OpenPdf input_path, Stderr (''Error extracting PDF: '' @ exc_str file_not_found @ [nl])]"
    by blast
  from failure_messages [where e = stream_error and PdfReader = corrupt_pdf
      and good = "[Page (Inr ''Hello'')]" and bad = "Page (Inl stream_error)"
      and rest = "[Page (Inr ''World'')]" and texts = "[''Hello'']"
      and penv = penv0 and w = w0, OF b1] b2 b3 b4
  have B: "events (snd (main corrupt_pdf penv0 w0)) =
     events w0 @
     [OpenPdf input_path,
      Stdout (pages_line (length ([Page (Inr ''Hello'')] @ Page (Inl stream_error) # [Page (Inr ''World'')])) @ [nl]),
      Stdout (rule80 @ [nl])] @
     page_events 1 [''Hello''] @
     [Stdout (page_header (Suc (length [Page (Inr ''Hello'')])) @ [nl]),
      ExtractText (Suc (length [Page (Inr ''Hello'')])),
      Stderr (''Error extracting PDF: '' @ exc_str stream_error @ [nl])]"
    by blast
  show ?thesis
    using a1 a2 b1 b2 b3 b4 A B
    by (simp add: w0_def stream_error_def numeral_2_eq_2 numeral_3_eq_3)
qed

text \<open>
  C3 as written fails on a missing file: the whole output of the run is one line on the
  error stream, the diagnostic with the text of the exception, and standard output is
  empty. Nothing reports that no output file was produced.
\<close>

theorem failure_messages_counterexample:
  "extraction_exception missing_file input_path = Some file_not_found \<and>
   is_Exception file_not_found \<and>
   events (snd (main missing_file penv0 w0)) =
     [OpenPdf input_path,
      Stderr (''Error extracting PDF: [Errno 2] No such file or directory: '' @
              [CHR 0x27] @ input_path @ [CHR 0x27] @ [nl])] \<and>
   stdout_of (events (snd (main missing_file penv0 w0))) = [] \<and>
   stderr_of (events (snd (main missing_file penv0 w0))) =
     [''Error extracting PDF: [Errno 2] No such file or directory: '' @
      [CHR 0x27] @ input_path @ [CHR 0x27] @ [nl]]"
  by (simp add: extraction_exception_def missing_file_def file_not_found_def main_def
      extract_pdf_text_def try_body_def py_print_stderr_def emit_def truthy_def w0_def)

subsection \<open>The result of \<open>extract_pdf_text\<close>\<close>

text \<open>
  C4 (as amended). For every path, \<open>extract_pdf_text\<close> ends in exactly one of three ways:
  it returns the texts of all pages joined with the separator, when nothing is raised; it
  returns \<open>None\<close>, when reading the file or extracting a page raises an instance of
  \<open>Exception\<close>; or it returns nothing, when the exception raised is not an instance of
  \<open>Exception\<close> and leaves the function. The claim as written allows the first two only.
\<close>

theorem extract_pdf_text_result:
  "(\<exists>pages texts. PdfReader path = Inr pages \<and> map extract_text pages = map Inr texts \<and>
      extraction_exception PdfReader path = None \<and>
      fst (extract_pdf_text PdfReader path w) = Returns (Some (join page_sep texts))) \<or>
   (\<exists>e. extraction_exception PdfReader path = Some e \<and> is_Exception e \<and>
      fst (extract_pdf_text PdfReader path w) = Returns None) \<or>
   (\<exists>e. extraction_exception PdfReader path = Some e \<and> \<not> is_Exception e \<and>
      fst (extract_pdf_text PdfReader path w) = Propagates e)"
proof (cases "extraction_exception PdfReader path")
  case None
  from extraction_exception_None [OF None]
  obtain pages texts where ok: "PdfReader path = Inr pages" "map extract_text pages = map Inr texts"
    by blast
  from extract_pdf_text_ok [of PdfReader path pages texts w, OF ok]
  have "fst (extract_pdf_text PdfReader path w) = Returns (Some (join page_sep texts))"
    by simp
  with ok None show ?thesis by blast
next
  case (Some e)
  show ?thesis
  proof (cases "is_Exception e")
    case True
    from extract_pdf_text_caught [OF Some True, of w]
    have "fst (extract_pdf_text PdfReader path w) = Returns None" by auto
    with Some True show ?thesis by blast
  next
    case False
    from extract_pdf_text_escapes [OF Some False, of w] Some False
    show ?thesis by blast
  qed
qed

text \<open>One run of each kind.\<close>

theorem extract_pdf_text_result_witness:
  "extraction_exception two_page_pdf input_path = None \<and>
   fst (extract_pdf_text two_page_pdf input_path w0) = Returns (Some (''Hello'' @ [nl, nl] @ ''World'')) \<and>
   extraction_exception corrupt_pdf input_path = Some stream_error \<and>
   is_Exception stream_error \<and>
   fst (extract_pdf_text corrupt_pdf input_path w0) = Returns None \<and>
   extraction_exception interrupted_pdf input_path = Some keyboard_interrupt \<and>
   \<not> is_Exception keyboard_interrupt \<and>
   fst (extract_pdf_text interrupted_pdf input_path w0) = Propagates keyboard_interrupt"
proof -
  have a: "extraction_exception two_page_pdf input_path = None"
    by (simp add: extraction_exception_def two_page_pdf_def)
  have b: "extraction_exception corrupt_pdf input_path = Some stream_error"
    by (simp add: extraction_exception_def corrupt_pdf_def)
  have c: "is_Exception stream_error"
    by (simp add: stream_error_def)
  have d: "extraction_exception interrupted_pdf input_path = Some keyboard_interrupt"
    by (simp add: extraction_exception_def interrupted_pdf_def)
  have e: "\<not> is_Exception keyboard_interrupt"
    by (simp add: keyboard_interrupt_def)
  from extract_pdf_text_result [where PdfReader = two_page_pdf and path = input_path and w = w0] a
  have A: "fst (extract_pdf_text two_page_pdf input_path w0) = Returns (Some (''Hello'' @ [nl, nl] @ ''World''))"
    by (auto simp: two_page_pdf_def page_sep_def)
  from extract_pdf_text_result [where PdfReader = corrupt_pdf and path = input_path and w = w0] b c
  have B: "fst (extract_pdf_text corrupt_pdf input_path w0) = Returns None"
    by auto
  from extract_pdf_text_result [where PdfReader = interrupted_pdf and path = input_path and w = w0] d e
  have C: "fst (extract_pdf_text interrupted_pdf input_path w0) = Propagates keyboard_interrupt"
    by auto
  from a b c d e A B C show ?thesis by blast
qed

text \<open>
  C4 as written fails when the user interrupts the extraction of the second page: the
  function returns neither \<open>None\<close> nor a text, the \<open>KeyboardInterrupt\<close> leaves it.
\<close>

theorem extract_pdf_text_result_counterexample:
  "interrupted_pdf input_path = Inr [Page (Inr ''Hello''), Page (Inl keyboard_interrupt)] \<and>
   fst (extract_pdf_text interrupted_pdf input_path w0) = Propagates keyboard_interrupt \<and>
   fst (extract_pdf_text interrupted_pdf input_path w0) \<noteq> Returns None \<and>
   fst (extract_pdf_text interrupted_pdf input_path w0) \<noteq> Returns (Some ''Hello'')"
  by (simp add: interrupted_pdf_def keyboard_interrupt_def extract_pdf_text_def try_body_def
      py_print_def emit_def)

text \<open>
  C5. After a successful extraction the returned string keeps the order of the pages: for
  \<open>1 \<le> i < n\<close> it is the texts of the pages before page \<open>i\<close> (each followed by the
  separator), then the text of page \<open>i\<close>, the separator, the text of page \<open>i + 1\<close>, then
  the texts of the later pages (each after a separator).
\<close>

theorem page_order:
  assumes "PdfReader path = Inr pages"
    and "map extract_text pages = map Inr texts"
    and "1 \<le> i" and "i < length pages"
  shows "fst (extract_pdf_text PdfReader path w) =
     Returns (Some (concat (map (\<lambda>t. t @ page_sep) (take (i - 1) texts)) @
                    texts ! (i - 1) @ page_sep @ texts ! i @
                    concat (map (\<lambda>t. page_sep @ t) (drop (Suc i) texts))))"
proof -
  from assms(2) have len: "length texts = length pages"
    by (metis length_map)
  with assms(3,4) have i: "i - 1 < length texts" "Suc (i - 1) = i" "i < length texts" by simp_all
  have "drop i texts = texts ! i # drop (Suc i) texts"
    using i(3) by (simp add: Cons_nth_drop_Suc)
  with join_decompose [OF i(1), of page_sep] i(2)
  have "join page_sep texts =
      concat (map (\<lambda>t. t @ page_sep) (take (i - 1) texts)) @
      texts ! (i - 1) @ page_sep @ texts ! i @ concat (map (\<lambda>t. page_sep @ t) (drop (Suc i) texts))"
    by simp
  then show ?thesis by (simp add: extract_pdf_text_ok [of PdfReader path pages texts, OF assms(1,2)])
qed

text \<open>Two pages, \<open>i = 1\<close>.\<close>

theorem page_order_witness:
  "two_page_pdf input_path = Inr [Page (Inr ''Hello''), Page (Inr ''World'')] \<and>
   map extract_text [Page (Inr ''Hello''), Page (Inr ''World'')] = map Inr [''Hello'', ''World''] \<and>
   (1::nat) \<le> 1 \<and> 1 < length [Page (Inr ''Hello''), Page (Inr ''World'')] \<and>
   fst (extract_pdf_text two_page_pdf input_path w0) =
     Returns (Some ([] @ ''Hello'' @ page_sep @ ''World'' @ []))"
proof -
  have h1: "two_page_pdf input_path = Inr [Page (Inr ''Hello''), Page (Inr ''World'')]"
    by (simp add: two_page_pdf_def)
  have h2: "map extract_text [Page (Inr ''Hello''), Page (Inr ''World'')] = map Inr [''Hello'', ''World'']"
    by simp
  have h3: "(1::nat) \<le> 1" by simp
  have h4: "1 < length [Page (Inr ''Hello''), Page (Inr ''World'')]" by simp
  from page_order [where PdfReader = two_page_pdf and path = input_path and w = w0, OF h1 h2 h3 h4]
    h1 h2 h3 h4
  show ?thesis by simp
qed

subsection \<open>The order of the steps\<close>

text \<open>
  C6. In a run where nothing is raised, the program does exactly this, in this order: it
  opens the PDF, prints the number of pages and a rule, then for each page in order prints
  the header, calls \<open>extract_text\<close>, prints the text and a rule, and only then, when the
  joined text is not empty, writes the output file and prints the success message. Every
  page's text is printed before the file is written.
\<close>

theorem step_order:
  assumes "PdfReader input_path = Inr pages"
    and "map extract_text pages = map Inr texts"
  shows "events (snd (main PdfReader penv w)) =
     events w @
     [OpenPdf input_path, Stdout (pages_line (length pages) @ [nl]), Stdout (rule80 @ [nl])] @
     page_events 1 texts @
     (if join page_sep texts = [] then []
      else [WriteFile output_path (join page_sep texts), Stdout (success_message @ [nl])])"
  by (simp add: main_def extract_pdf_text_ok [of PdfReader _ pages texts, OF assms] truthy_def write_file_def
      py_print_def emit_def)

text \<open>The whole trace of a run on a PDF of two pages.\<close>

theorem step_order_witness:
  "two_page_pdf input_path = Inr [Page (Inr ''Hello''), Page (Inr ''World'')] \<and>
   map extract_text [Page (Inr ''Hello''), Page (Inr ''World'')] = map Inr [''Hello'', ''World''] \<and>
   events (snd (main two_page_pdf penv0 w0)) =
     [OpenPdf input_path, Stdout (pages_line 2 @ [nl]), Stdout (rule80 @ [nl]),
      Stdout (page_header 1 @ [nl]), ExtractText 1, Stdout (''Hello'' @ [nl]),
      Stdout ([nl] @ rule80 @ [nl]),
      Stdout (page_header 2 @ [nl]), ExtractText 2, Stdout (''World'' @ [nl]),
      Stdout ([nl] @ rule80 @ [nl]),
      WriteFile output_path (''Hello'' @ [nl, nl] @ ''World''),
      Stdout (success_message @ [nl])]"
proof -
  have h1: "two_page_pdf input_path = Inr [Page (Inr ''Hello''), Page (Inr ''World'')]"
    by (simp add: two_page_pdf_def)
  have h2: "map extract_text [Page (Inr ''Hello''), Page (Inr ''World'')] = map Inr [''Hello'', ''World'']"
    by simp
  from step_order [where PdfReader = two_page_pdf and penv = penv0 and w = w0, OF h1 h2] h1 h2
  show ?thesis by (simp add: w0_def page_sep_def numeral_2_eq_2)
qed

subsection \<open>The input path\<close>

text \<open>
  C7. The input path is the constant \<open>VISANET- user journey.pdf\<close>: two runs whose
  library answers that path alike behave alike, whatever their arguments and environment
  variables are, and the one PDF a run opens is the one at that path.
\<close>

theorem hardcoded_input_path:
  assumes "PdfReader1 ''VISANET- user journey.pdf'' = PdfReader2 ''VISANET- user journey.pdf''"
  shows "main PdfReader1 penv1 w = main PdfReader2 penv2 w \<and>
         opens_of (events (snd (main PdfReader1 penv1 w))) =
           opens_of (events w) @ [''VISANET- user journey.pdf'']"
proof -
  have "main PdfReader1 penv1 w = main PdfReader2 penv2 w"
    using assms by (simp add: main_def extract_pdf_text_def try_body_def)
  with main_opens [of PdfReader1 penv1 w] show ?thesis by simp
qed

text \<open>Two runs that differ in an argument and in an environment variable.\<close>

theorem hardcoded_input_path_witness:
  "two_page_pdf ''VISANET- user journey.pdf'' = two_page_pdf ''VISANET- user journey.pdf'' \<and>
   main two_page_pdf penv0 w0 =
     main two_page_pdf \<lparr>argv = [''extract_pdf.py'', ''other.pdf''], environ = [(''PDF'', ''other.pdf'')]\<rparr> w0 \<and>
   opens_of (events (snd (main two_page_pdf penv0 w0))) = [''VISANET- user journey.pdf'']"
proof -
  have h: "two_page_pdf ''VISANET- user journey.pdf'' = two_page_pdf ''VISANET- user journey.pdf''"
    by simp
  have e: "opens_of (events w0) = []"
    by (simp add: w0_def)
  note t = hardcoded_input_path [where ?PdfReader1.0 = two_page_pdf and ?PdfReader2.0 = two_page_pdf
      and ?penv1.0 = penv0
      and ?penv2.0 = "\<lparr>argv = [''extract_pdf.py'', ''other.pdf''], environ = [(''PDF'', ''other.pdf'')]\<rparr>"
      and w = w0, OF h, unfolded e append_Nil]
  from h t show ?thesis by blast
qed

subsection \<open>Empty text\<close>

text \<open>
  C8. When extraction succeeds and the joined text is the empty string, the program ends
  normally, writes no file, prints no success message and adds nothing to the error
  stream.
\<close>

theorem empty_text_no_output:
  assumes "PdfReader input_path = Inr pages"
    and "map extract_text pages = map Inr texts"
    and "join page_sep texts = []"
  shows "fst (main PdfReader penv w) = Returns () \<and>
         files (snd (main PdfReader penv w)) = files w \<and>
         writes_of (events (snd (main PdfReader penv w))) = writes_of (events w) \<and>
         stderr_of (events (snd (main PdfReader penv w))) = stderr_of (events w) \<and>
         (\<exists>evs. events (snd (main PdfReader penv w)) = events w @ evs \<and>
                Stdout (success_message @ [nl]) \<notin> set evs)"
proof -
  let ?evs = "[OpenPdf input_path, Stdout (pages_line (length pages) @ [nl]), Stdout (rule80 @ [nl])] @
              page_events 1 texts"
  have m: "main PdfReader penv w = (Returns (), w\<lparr>events := events w @ ?evs\<rparr>)"
    using assms(3)
    by (simp add: main_def extract_pdf_text_ok [of PdfReader _ pages texts, OF assms(1,2)] truthy_def)
  from assms(3) have "texts = [] \<or> texts = ['''']"
    by (simp add: join_empty_iff [OF page_sep_nonempty])
  from no_success_in_progress [OF this] have "Stdout (success_message @ [nl]) \<notin> set ?evs" .
  then have "\<exists>evs. events w @ ?evs = events w @ evs \<and> Stdout (success_message @ [nl]) \<notin> set evs"
    by blast
  then show ?thesis
    by (simp add: m stderr_of_append writes_of_append page_events_streams)
qed

text \<open>A scanned page without text.\<close>

theorem empty_text_no_output_witness:
  "scanned_pdf input_path = Inr [Page (Inr [])] \<and>
   map extract_text [Page (Inr [])] = map Inr [''''] \<and>
   join page_sep [''''] = [] \<and>
   fst (main scanned_pdf penv0 w0) = Returns () \<and>
   files (snd (main scanned_pdf penv0 w0)) = Map.empty \<and>
   writes_of (events (snd (main scanned_pdf penv0 w0))) = [] \<and>
   stderr_of (events (snd (main scanned_pdf penv0 w0))) = [] \<and>
   Stdout (success_message @ [nl]) \<notin> set (events (snd (main scanned_pdf penv0 w0)))"
proof -
  have h1: "scanned_pdf input_path = Inr [Page (Inr [])]" by (simp add: scanned_pdf_def)
  have h2: "map extract_text [Page (Inr [])] = map Inr ['''']" by simp
  have h3: "join page_sep [''''] = []" by simp
  from empty_text_no_output [where PdfReader = scanned_pdf and penv = penv0 and w = w0, OF h1 h2 h3]
    h1 h2 h3
  show ?thesis by (auto simp: w0_def)
qed

subsection \<open>The exception handler\<close>

text \<open>
  C9 (as amended). Whatever exception \<open>e\<close> reading the file or extracting a page raises:
  if \<open>e\<close> is an instance of \<open>Exception\<close>, the handler catches it and \<open>extract_pdf_text\<close>
  returns \<open>None\<close>; otherwise (\<open>KeyboardInterrupt\<close>, \<open>SystemExit\<close>) the handler
  \<open>except Exception\<close> does not take it and it reaches the caller.
\<close>

theorem exception_handler:
  assumes "extraction_exception PdfReader path = Some e"
  shows "fst (extract_pdf_text PdfReader path w) =
     (if is_Exception e then Returns None else Propagates e)"
proof (cases "is_Exception e")
  case True
  from extract_pdf_text_caught [OF assms True, of w] True show ?thesis by auto
next
  case False
  from extract_pdf_text_escapes [OF assms False, of w] False show ?thesis by simp
qed

text \<open>A damaged page is caught; an interruption from the keyboard is not.\<close>

theorem exception_handler_witness:
  "extraction_exception corrupt_pdf input_path = Some stream_error \<and>
   fst (extract_pdf_text corrupt_pdf input_path w0) = Returns None \<and>
   extraction_exception interrupted_pdf input_path = Some keyboard_interrupt \<and>
   fst (extract_pdf_text interrupted_pdf input_path w0) = Propagates keyboard_interrupt"
proof -
  have h1: "extraction_exception corrupt_pdf input_path = Some stream_error"
    by (simp add: extraction_exception_def corrupt_pdf_def)
  have h2: "extraction_exception interrupted_pdf input_path = Some keyboard_interrupt"
    by (simp add: extraction_exception_def interrupted_pdf_def)
  from exception_handler [where PdfReader = corrupt_pdf and path = input_path and w = w0, OF h1]
    exception_handler [where PdfReader = interrupted_pdf and path = input_path and w = w0, OF h2]
    h1 h2
  show ?thesis by (simp add: stream_error_def keyboard_interrupt_def)
qed

text \<open>
  C9 as written fails when the user interrupts the extraction of a page: the
  \<open>KeyboardInterrupt\<close> leaves \<open>extract_pdf_text\<close> and the main block.
\<close>

theorem exception_handler_counterexample:
  "extraction_exception interrupted_pdf input_path = Some keyboard_interrupt \<and>
   fst (extract_pdf_text interrupted_pdf input_path w0) = Propagates keyboard_interrupt \<and>
   fst (main interrupted_pdf penv0 w0) = Propagates keyboard_interrupt"
  by (simp add: extraction_exception_def interrupted_pdf_def keyboard_interrupt_def main_def
      extract_pdf_text_def try_body_def py_print_def emit_def)

subsection \<open>A single page\<close>

text \<open>
  C10. For a PDF of exactly one page whose extraction succeeds, the returned string is
  that page's text, with no separator before or after.
\<close>

theorem single_page:
  assumes "PdfReader path = Inr [pg]" and "extract_text pg = Inr text"
  shows "fst (extract_pdf_text PdfReader path w) = Returns (Some text)"
proof -
  from assms(2) have "map extract_text [pg] = map Inr [text]" by simp
  from extract_pdf_text_ok [of PdfReader path "[pg]" "[text]" w, OF assms(1) this] show ?thesis by simp
qed

text \<open>A PDF of one page.\<close>

theorem single_page_witness:
  "one_page_pdf input_path = Inr [Page (Inr ''Hello'')] \<and>
   extract_text (Page (Inr ''Hello'')) = Inr ''Hello'' \<and>
   fst (extract_pdf_text one_page_pdf input_path w0) = Returns (Some ''Hello'')"
proof -
  have h1: "one_page_pdf input_path = Inr [Page (Inr ''Hello'')]" by (simp add: one_page_pdf_def)
  have h2: "extract_text (Page (Inr ''Hello'')) = Inr ''Hello''" by simp
  from single_page [where PdfReader = one_page_pdf and path = input_path and w = w0, OF h1 h2] h1 h2
  show ?thesis by simp
qed

end
